theory Spec2Isabelle
  imports Main "HOL-Library.Sublist"
begin

section \<open>The media organizer (organizer/organize\_media.py)\<close>

text \<open>
  The organizer sweeps a downloads directory, parses each file name with guessit,
  optionally asks TMDB for the canonical title, and moves the file under the movies or
  TV root. Everything it does to the outside world (file system, HTTP, logging, the
  guessit library) is a call whose result the program cannot compute itself, so the
  embedding records every such call as an event and takes its result from an
  environment that may answer differently after every call.
\<close>

subsection \<open>Strings and numbers\<close>

text \<open>
  A string is a list of characters with code points below 256. \<open>upper\<close> is
  \<^verbatim>\<open>str.upper()\<close> on the ASCII letters (nothing proved below depends on what it
  does to a character). \<open>isdigit\<close> is \<^verbatim>\<open>str.isdigit()\<close>: false on the
  empty string, true when every character is a digit, and below 256 the digits are the
  decimal digits 0 to 9 and the superscripts U+00B2, U+00B3 and U+00B9. \<open>int_str\<close>
  is \<^verbatim>\<open>int(s)\<close> for a string on which \<open>isdigit\<close> holds, the only strings
  the program passes to it: the decimal value when every character is a decimal digit,
  and \<^verbatim>\<open>ValueError\<close> when a superscript is among them. \<open>str_nat\<close> is
  \<^verbatim>\<open>str(n)\<close> and \<open>format_02d\<close> is the format specification
  \<^verbatim>\<open>{n:02d}\<close> on an integer: zero fill up to a minimum width of two. Integers
  are natural numbers.

  An exception is a value; every exception modelled is an instance of
  \<^verbatim>\<open>Exception\<close>, named by its class.
\<close>

datatype exn = Exception string

definition upper_char :: "char \<Rightarrow> char" where
  "upper_char c =
     (case map_of (zip ''abcdefghijklmnopqrstuvwxyz'' ''ABCDEFGHIJKLMNOPQRSTUVWXYZ'') c of
        Some u \<Rightarrow> u
      | None \<Rightarrow> c)"

definition upper :: "string \<Rightarrow> string" where
  "upper s = map upper_char s"

definition is_decimal_char :: "char \<Rightarrow> bool" where
  "is_decimal_char c = (c \<in> set ''0123456789'')"

definition is_superscript_digit :: "char \<Rightarrow> bool" where
  "is_superscript_digit c = (c \<in> {CHR 0xB2, CHR 0xB3, CHR 0xB9})"

definition isdigit :: "string \<Rightarrow> bool" where
  "isdigit s = (s \<noteq> [] \<and> list_all (\<lambda>c. is_decimal_char c \<or> is_superscript_digit c) s)"

definition digit_val :: "char \<Rightarrow> nat" where
  "digit_val c = of_char c - 48"

definition int_of_digits :: "string \<Rightarrow> nat" where
  "int_of_digits s = foldl (\<lambda>acc c. 10 * acc + digit_val c) 0 s"

definition int_str :: "string \<Rightarrow> exn + nat" where
  "int_str s =
     (if s \<noteq> [] \<and> list_all is_decimal_char s then Inr (int_of_digits s)
      else Inl (Exception ''ValueError''))"

definition digit_char :: "nat \<Rightarrow> char" where
  "digit_char d = ''0123456789'' ! d"

fun str_nat :: "nat \<Rightarrow> string" where
  "str_nat n = (if n < 10 then [digit_char n] else str_nat (n div 10) @ [digit_char (n mod 10)])"

declare str_nat.simps [simp del]

definition format_02d :: "nat \<Rightarrow> string" where
  "format_02d n = (let s = str_nat n in replicate (2 - length s) (CHR ''0'') @ s)"

text \<open>\<^verbatim>\<open>sep.join(xs)\<close>.\<close>

fun join :: "string \<Rightarrow> string list \<Rightarrow> string" where
  "join sep [] = []"
| "join sep [x] = x"
| "join sep (x # y # ys) = x @ sep @ join sep (y # ys)"

text \<open>Truthiness of an optional string and of an optional number, as \<^verbatim>\<open>if x:\<close> tests it.\<close>

definition truthy_str :: "string option \<Rightarrow> bool" where
  "truthy_str v = (case v of None \<Rightarrow> False | Some s \<Rightarrow> s \<noteq> [])"

definition truthy_num :: "nat option \<Rightarrow> bool" where
  "truthy_num v = (case v of None \<Rightarrow> False | Some n \<Rightarrow> n \<noteq> 0)"

subsection \<open>The parsed file name\<close>

text \<open>
  guessit returns a dictionary that the program reads with \<^verbatim>\<open>info.get(key)\<close> for
  nine keys. The record has one optional field per key (\<open>None\<close> when the key is
  missing). A season or an episode is an integer, or the list of integers guessit
  gives for a name with several of them; the format specification \<^verbatim>\<open>{x:02d}\<close>
  raises \<^verbatim>\<open>TypeError\<close> on a list. The other fields are typed as the data model
  types them.
\<close>

datatype number = IntValue nat | ListValue "nat list"

definition format_02d_value :: "number \<Rightarrow> exn + string" where
  "format_02d_value x =
     (case x of
        IntValue n \<Rightarrow> Inr (format_02d n)
      | ListValue ns \<Rightarrow> Inl (Exception ''TypeError''))"

record info =
  info_type :: "string option"
  info_title :: "string option"
  info_year :: "nat option"
  info_season :: "number option"
  info_episode :: "number option"
  info_screen_size :: "string option"
  info_source :: "string option"
  info_video_codec :: "string option"
  info_audio_codec :: "string option"

subsection \<open>build\_tag\_suffix\<close>

text \<open>One \<^verbatim>\<open>if field: tags.append(str(field).upper())\<close> block.\<close>

definition append_tag :: "string option \<Rightarrow> string list" where
  "append_tag field = (case field of None \<Rightarrow> [] | Some s \<Rightarrow> if s \<noteq> [] then [upper s] else [])"

text \<open>The loop \<^verbatim>\<open>for t in tags\<close> with its two accumulators \<open>seen\<close> and \<open>uniq\<close>.\<close>

fun uniq_loop :: "string list \<Rightarrow> string set \<Rightarrow> string list \<Rightarrow> string list" where
  "uniq_loop [] seen uniq = uniq"
| "uniq_loop (t # ts) seen uniq =
     (if t \<notin> seen then uniq_loop ts (insert t seen) (uniq @ [t]) else uniq_loop ts seen uniq)"

definition build_tag_suffix :: "info \<Rightarrow> string" where
  "build_tag_suffix i =
     (let tags = append_tag (info_screen_size i) @ append_tag (info_source i)
                 @ append_tag (info_video_codec i) @ append_tag (info_audio_codec i);
          uniq = uniq_loop tags {} []
      in if uniq \<noteq> [] then '' ['' @ join '' '' uniq @ '']'' else [])"

subsection \<open>Paths\<close>

text \<open>
  A \<^verbatim>\<open>pathlib.Path\<close> is kept as it is built: \<open>Path s\<close> is
  \<^verbatim>\<open>Path(s)\<close> and \<open>Div p s\<close> is \<^verbatim>\<open>p / s\<close>. \<open>name\<close> is the
  attribute \<^verbatim>\<open>.name\<close> (the text after the last separator of the last operand)
  and \<open>suffix_path\<close> the attribute \<^verbatim>\<open>.suffix\<close>: the part of the name from its last
  dot on, empty when the name has no dot, starts with its only dot or ends with a dot.
\<close>

datatype path = Path string | Div path string

fun name :: "path \<Rightarrow> string" where
  "name (Path s) = rev (takeWhile (\<lambda>c. c \<noteq> CHR ''/'') (rev s))"
| "name (Div p s) = rev (takeWhile (\<lambda>c. c \<noteq> CHR ''/'') (rev s))"

definition suffix_path :: "path \<Rightarrow> string" where
  "suffix_path p =
     (let n = name p;
          i = length n - Suc (length (takeWhile (\<lambda>c. c \<noteq> CHR ''.'') (rev n)))
      in if CHR ''.'' \<in> set n \<and> 0 < i \<and> i < length n - 1 then drop i n else [])"

subsection \<open>Calls to the outside world\<close>

text \<open>
  A TMDB response carries \<^verbatim>\<open>r.ok\<close> and
  what \<^verbatim>\<open>r.json()\<close> gives: an exception when the body is not JSON of the expected
  shape (on which \<^verbatim>\<open>r.json()\<close>, \<^verbatim>\<open>.get\<close> or indexing raises), otherwise the
  value under the key \<^verbatim>\<open>results\<close> (\<open>None\<close> when the key is missing or null), a
  list of candidates. A candidate is a dictionary from field names to strings.
\<close>

type_synonym candidate = "(string \<times> string) list"

record payload =
  payload_results :: "candidate list option"

record response =
  resp_ok :: bool
  resp_json :: "exn + payload"

datatype param = PStr string | PInt nat

datatype level = DEBUG | INFO | WARNING | ERROR

datatype logarg = APath path | AStr string | AOptStr "string option" | ABool bool | AExn exn
  | AInfo info

text \<open>
  The calls the program makes. \<open>Log\<close> is a call of the logging module with its format
  string and arguments (\<^verbatim>\<open>logging.exception\<close> logs at level \<open>ERROR\<close>);
  \<open>Get\<close> is \<^verbatim>\<open>requests.get(url, params=..., timeout=...)\<close>; \<open>Mkdir\<close> is
  \<^verbatim>\<open>mkdir(parents=True, exist_ok=True)\<close>; \<open>Move\<close> is \<^verbatim>\<open>shutil.move\<close>;
  \<open>Walk\<close> is \<^verbatim>\<open>os.walk\<close>; \<open>Listen\<close> is the construction of the
  \<^verbatim>\<open>HTTPServer\<close>; the last three are the handler writing its response.
\<close>

datatype event =
    Log level string "logarg list"
  | IsFile path
  | Stat path
  | Guessit string
  | Get string "(string \<times> param) list" nat
  | Mkdir path
  | Move path path
  | Exists path
  | Walk path
  | Listen string nat
  | SendResponse nat
  | EndHeaders
  | WFileWrite string

type_synonym trace = "event list"

text \<open>
  The environment answers every call, given the calls made so far: the file system, the
  network and the library may change between two calls. \<open>env_walk\<close> is everything the
  generator \<^verbatim>\<open>os.walk\<close> yields during the sweep, as pairs of \<open>root\<close> and
  \<open>files\<close>.
\<close>

record world =
  env_is_file :: "trace \<Rightarrow> path \<Rightarrow> exn + bool"
  env_stat_size :: "trace \<Rightarrow> path \<Rightarrow> exn + nat"
  env_guessit :: "trace \<Rightarrow> string \<Rightarrow> exn + info"
  env_get :: "trace \<Rightarrow> string \<Rightarrow> (string \<times> param) list \<Rightarrow> nat \<Rightarrow> exn + response"
  env_mkdir :: "trace \<Rightarrow> path \<Rightarrow> exn + unit"
  env_move :: "trace \<Rightarrow> path \<Rightarrow> path \<Rightarrow> exn + unit"
  env_exists :: "trace \<Rightarrow> path \<Rightarrow> exn + bool"
  env_walk :: "trace \<Rightarrow> path \<Rightarrow> (string \<times> string list) list"
  env_listen :: "trace \<Rightarrow> string \<Rightarrow> nat \<Rightarrow> exn + unit"

text \<open>
  A computation takes the calls made before it and gives its result, a value or the
  exception it raises, with the calls it made itself.
\<close>

type_synonym 'a io = "trace \<Rightarrow> (exn + 'a) \<times> event list"

definition ret :: "'a \<Rightarrow> 'a io" where
  "ret x = (\<lambda>tr. (Inr x, []))"

definition io_bind :: "'a io \<Rightarrow> ('a \<Rightarrow> 'b io) \<Rightarrow> 'b io" where
  "io_bind m f =
     (\<lambda>tr. case m tr of
        (Inl e, evs) \<Rightarrow> (Inl e, evs)
      | (Inr x, evs) \<Rightarrow> (case f x (tr @ evs) of (r, evs') \<Rightarrow> (r, evs @ evs')))"

definition try_except :: "'a io \<Rightarrow> (exn \<Rightarrow> 'a io) \<Rightarrow> 'a io" where
  "try_except m h =
     (\<lambda>tr. case m tr of
        (Inl e, evs) \<Rightarrow> (case h e (tr @ evs) of (r, evs') \<Rightarrow> (r, evs @ evs'))
      | (Inr x, evs) \<Rightarrow> (Inr x, evs))"

definition call :: "event \<Rightarrow> (trace \<Rightarrow> exn + 'a) \<Rightarrow> 'a io" where
  "call ev answer = (\<lambda>tr. (answer tr, [ev]))"

definition logging :: "level \<Rightarrow> string \<Rightarrow> logarg list \<Rightarrow> unit io" where
  "logging lvl fmt args = call (Log lvl fmt args) (\<lambda>tr. Inr ())"

definition is_file :: "world \<Rightarrow> path \<Rightarrow> bool io" where
  "is_file w p = call (IsFile p) (\<lambda>tr. env_is_file w tr p)"

definition stat_st_size :: "world \<Rightarrow> path \<Rightarrow> nat io" where
  "stat_st_size w p = call (Stat p) (\<lambda>tr. env_stat_size w tr p)"

definition guessit :: "world \<Rightarrow> string \<Rightarrow> info io" where
  "guessit w s = call (Guessit s) (\<lambda>tr. env_guessit w tr s)"

definition requests_get :: "world \<Rightarrow> string \<Rightarrow> (string \<times> param) list \<Rightarrow> nat \<Rightarrow> response io" where
  "requests_get w url params timeout = call (Get url params timeout) (\<lambda>tr. env_get w tr url params timeout)"

text \<open>An expression that makes no call, with the value it has or the exception it raises.\<close>

definition evaluate :: "exn + 'a \<Rightarrow> 'a io" where
  "evaluate x = (\<lambda>tr. (x, []))"

definition json :: "response \<Rightarrow> payload io" where
  "json r = (\<lambda>tr. (resp_json r, []))"

definition mkdir :: "world \<Rightarrow> path \<Rightarrow> unit io" where
  "mkdir w p = call (Mkdir p) (\<lambda>tr. env_mkdir w tr p)"

definition shutil_move :: "world \<Rightarrow> path \<Rightarrow> path \<Rightarrow> unit io" where
  "shutil_move w src dst = call (Move src dst) (\<lambda>tr. env_move w tr src dst)"

definition exists :: "world \<Rightarrow> path \<Rightarrow> bool io" where
  "exists w p = call (Exists p) (\<lambda>tr. env_exists w tr p)"

definition os_walk :: "world \<Rightarrow> path \<Rightarrow> (string \<times> string list) list io" where
  "os_walk w p = call (Walk p) (\<lambda>tr. Inr (env_walk w tr p))"

definition HTTPServer :: "world \<Rightarrow> string \<Rightarrow> nat \<Rightarrow> unit io" where
  "HTTPServer w host port = call (Listen host port) (\<lambda>tr. env_listen w tr host port)"

definition send_response :: "nat \<Rightarrow> unit io" where
  "send_response code = call (SendResponse code) (\<lambda>tr. Inr ())"

definition end_headers :: "unit io" where
  "end_headers = call EndHeaders (\<lambda>tr. Inr ())"

definition wfile_write :: "string \<Rightarrow> unit io" where
  "wfile_write body = call (WFileWrite body) (\<lambda>tr. Inr ())"

subsection \<open>Configuration\<close>

text \<open>The module's globals read from the process environment, and its two constants.\<close>

record config =
  DOWNLOADS_DIR :: path
  MOVIES_DIR :: path
  TV_DIR :: path
  TMDB_API_KEY :: string
  SLEEP_SECONDS :: int

definition TMDB_BASE :: string where
  "TMDB_BASE = ''https://api.themoviedb.org/3''"

definition MIN_SIZE_BYTES :: nat where
  "MIN_SIZE_BYTES = 50 * 1024 * 1024"

subsection \<open>tmdb\_search\_movie and tmdb\_search\_tv\<close>

text \<open>\<^verbatim>\<open>d.get(key) or default\<close> on a candidate.\<close>

definition get_or :: "candidate \<Rightarrow> string \<Rightarrow> string \<Rightarrow> string" where
  "get_or d key dflt = (case map_of d key of None \<Rightarrow> dflt | Some v \<Rightarrow> if v \<noteq> [] then v else dflt)"

text \<open>\<^verbatim>\<open>data.get("results") or []\<close>.\<close>

definition results_or_empty :: "payload \<Rightarrow> candidate list" where
  "results_or_empty data = (case payload_results data of None \<Rightarrow> [] | Some rs \<Rightarrow> rs)"

record movie_info =
  movie_title :: string
  movie_year :: "nat option"

record tv_info =
  tv_name :: string
  tv_year :: "nat option"

text \<open>The dictionaries \<^verbatim>\<open>params\<close> of the two searches, in insertion order.\<close>

definition movie_params :: "config \<Rightarrow> string \<Rightarrow> nat option \<Rightarrow> (string \<times> param) list" where
  "movie_params cfg title year =
     [(''api_key'', PStr (TMDB_API_KEY cfg)), (''query'', PStr title)]
     @ (case year of None \<Rightarrow> [] | Some y \<Rightarrow> if y \<noteq> 0 then [(''year'', PInt y)] else [])"

definition tv_params :: "config \<Rightarrow> string \<Rightarrow> (string \<times> param) list" where
  "tv_params cfg title = [(''api_key'', PStr (TMDB_API_KEY cfg)), (''query'', PStr title)]"

definition tmdb_search_movie :: "config \<Rightarrow> world \<Rightarrow> string \<Rightarrow> nat option \<Rightarrow> movie_info option io" where
  "tmdb_search_movie cfg w title year =
     (if TMDB_API_KEY cfg = [] then ret None
      else
        let params = movie_params cfg title year
        in io_bind (requests_get w (TMDB_BASE @ ''/search/movie'') params 10) (\<lambda>r.
           if \<not> resp_ok r then ret None
           else io_bind (json r) (\<lambda>data.
             case results_or_empty data of
               [] \<Rightarrow> ret None
             | best # _ \<Rightarrow>
                 let release_date = get_or best ''release_date'' []
                 in io_bind
                      (if isdigit (take 4 release_date)
                       then io_bind (evaluate (int_str (take 4 release_date))) (\<lambda>n. ret (Some n))
                       else if truthy_num year then ret year
                       else ret None) (\<lambda>movie_year.
                    ret (Some \<lparr>movie_title = get_or best ''title'' title,
                               movie_year = movie_year\<rparr>)))))"

definition tmdb_search_tv :: "config \<Rightarrow> world \<Rightarrow> string \<Rightarrow> tv_info option io" where
  "tmdb_search_tv cfg w title =
     (if TMDB_API_KEY cfg = [] then ret None
      else
        let params = tv_params cfg title
        in io_bind (requests_get w (TMDB_BASE @ ''/search/tv'') params 10) (\<lambda>r.
           if \<not> resp_ok r then ret None
           else io_bind (json r) (\<lambda>data.
             case results_or_empty data of
               [] \<Rightarrow> ret None
             | best # _ \<Rightarrow>
                 let name = get_or best ''name'' title;
                     first_air = get_or best ''first_air_date'' []
                 in io_bind
                      (if isdigit (take 4 first_air)
                       then io_bind (evaluate (int_str (take 4 first_air))) (\<lambda>n. ret (Some n))
                       else ret None) (\<lambda>year.
                    ret (Some \<lparr>tv_name = name, tv_year = year\<rparr>)))))"

subsection \<open>handle\_episode and handle\_movie\<close>

definition handle_episode :: "config \<Rightarrow> world \<Rightarrow> path \<Rightarrow> info \<Rightarrow> unit io" where
  "handle_episode cfg w path i =
     (case (info_title i, info_season i, info_episode i) of
        (Some title, Some season, Some episode) \<Rightarrow>
          if title = [] then
            logging INFO ''Skipping episode (missing title/season/episode): %s'' [APath path]
          else
            io_bind (tmdb_search_tv cfg w title) (\<lambda>tmdb_info.
              let show_name =
                    (case tmdb_info of
                       None \<Rightarrow> title
                     | Some t \<Rightarrow> if tv_name t \<noteq> [] then tv_name t else title);
                  tag_suffix = build_tag_suffix i
              in io_bind (evaluate (format_02d_value season)) (\<lambda>ss.
                 let season_dir = Div (Div (TV_DIR cfg) show_name) (''Season '' @ ss)
                 in io_bind (mkdir w season_dir) (\<lambda>_.
                    io_bind (evaluate (format_02d_value episode)) (\<lambda>ee.
                    let new_name = show_name @ '' - S'' @ ss @ ''E'' @ ee @ tag_suffix
                                   @ suffix_path path;
                        dest = Div season_dir new_name
                    in io_bind (logging INFO ''TV: %s -> %s'' [APath path, APath dest]) (\<lambda>_.
                       shutil_move w path dest)))))
      | _ \<Rightarrow> logging INFO ''Skipping episode (missing title/season/episode): %s'' [APath path])"

definition handle_movie :: "config \<Rightarrow> world \<Rightarrow> path \<Rightarrow> info \<Rightarrow> unit io" where
  "handle_movie cfg w path i =
     (if \<not> truthy_str (info_title i) then
        logging INFO ''Skipping movie (missing title): %s'' [APath path]
      else
        let title0 = (case info_title i of None \<Rightarrow> [] | Some t \<Rightarrow> t);
            year0 = info_year i
        in io_bind (tmdb_search_movie cfg w title0 year0) (\<lambda>tmdb_info.
           let title = (case tmdb_info of
                          None \<Rightarrow> title0
                        | Some m \<Rightarrow> if movie_title m \<noteq> [] then movie_title m else title0);
               year = (case tmdb_info of
                         None \<Rightarrow> year0
                       | Some m \<Rightarrow> if truthy_num (movie_year m) then movie_year m else year0);
               tag_suffix = build_tag_suffix i
           in io_bind (mkdir w (MOVIES_DIR cfg)) (\<lambda>_.
              let base = (case year of
                            None \<Rightarrow> title
                          | Some y \<Rightarrow> if y \<noteq> 0 then title @ '' ('' @ str_nat y @ '')'' else title);
                  new_name = base @ tag_suffix @ suffix_path path;
                  dest = Div (MOVIES_DIR cfg) new_name
              in io_bind (logging INFO ''Movie: %s -> %s'' [APath path, APath dest]) (\<lambda>_.
                 shutil_move w path dest))))"

subsection \<open>process\_file and sweep\_once\<close>

definition process_file :: "config \<Rightarrow> world \<Rightarrow> path \<Rightarrow> unit io" where
  "process_file cfg w path =
     io_bind (is_file w path) (\<lambda>regular.
       if \<not> regular then ret ()
       else io_bind (stat_st_size w path) (\<lambda>st_size.
         if st_size < MIN_SIZE_BYTES then logging INFO ''Skipping small file: %s'' [APath path]
         else io_bind (guessit w (name path)) (\<lambda>i.
           io_bind (logging DEBUG ''Guessit for %s: %s'' [AStr (name path), AInfo i]) (\<lambda>_.
             let kind = info_type i
             in if kind = Some ''episode'' then handle_episode cfg w path i
                else if kind = Some ''movie'' then handle_movie cfg w path i
                else logging INFO ''Unknown type (%s) for %s; skipping'' [AOptStr kind, APath path]))))"

text \<open>The inner loop \<^verbatim>\<open>for name in files\<close> with its \<^verbatim>\<open>try\<close> and the outer loop over the walk.\<close>

fun sweep_files :: "config \<Rightarrow> world \<Rightarrow> string \<Rightarrow> string list \<Rightarrow> unit io" where
  "sweep_files cfg w root [] = ret ()"
| "sweep_files cfg w root (nm # files) =
     io_bind
       (try_except (process_file cfg w (Div (Path root) nm))
          (\<lambda>e. logging ERROR ''Error processing %s: %s'' [APath (Div (Path root) nm), AExn e]))
       (\<lambda>_. sweep_files cfg w root files)"

fun sweep_walk :: "config \<Rightarrow> world \<Rightarrow> (string \<times> string list) list \<Rightarrow> unit io" where
  "sweep_walk cfg w [] = ret ()"
| "sweep_walk cfg w ((root, files) # rest) =
     io_bind (sweep_files cfg w root files) (\<lambda>_. sweep_walk cfg w rest)"

definition sweep_once :: "config \<Rightarrow> world \<Rightarrow> unit io" where
  "sweep_once cfg w =
     io_bind (exists w (DOWNLOADS_DIR cfg)) (\<lambda>found.
       if \<not> found then
         logging WARNING ''Downloads dir %s does not exist'' [APath (DOWNLOADS_DIR cfg)]
       else io_bind (os_walk w (DOWNLOADS_DIR cfg)) (\<lambda>walk. sweep_walk cfg w walk))"

subsection \<open>The HTTP trigger and main\<close>

text \<open>
  \<open>do_POST\<close> of \<open>TriggerHandler\<close>, for a request with the given path. Writing
  the response is taken to succeed.
\<close>

definition do_POST :: "config \<Rightarrow> world \<Rightarrow> string \<Rightarrow> unit io" where
  "do_POST cfg w request_path =
     (if request_path = ''/scan-once'' then
        io_bind (logging INFO ''HTTP trigger received: running sweep_once()'' []) (\<lambda>_.
          try_except
            (io_bind (sweep_once cfg w) (\<lambda>_.
             io_bind (send_response 200) (\<lambda>_.
             io_bind end_headers (\<lambda>_.
             wfile_write ''OK''))))
            (\<lambda>e.
             io_bind (logging ERROR ''Error in sweep_once() from HTTP trigger: %s'' [AExn e]) (\<lambda>_.
             io_bind (send_response 500) (\<lambda>_.
             io_bind end_headers (\<lambda>_.
             wfile_write ''ERROR'')))))
      else io_bind (send_response 404) (\<lambda>_. end_headers))"

text \<open>
  \<^verbatim>\<open>server.serve_forever()\<close> does not return. The model runs it over the POST requests
  that have arrived so far, given by their paths, and then is still \<open>Serving\<close>; an
  exception escaping a handler is dropped by the server, which goes on serving.
\<close>

datatype ending = Returned | Serving

fun serve_forever :: "config \<Rightarrow> world \<Rightarrow> string list \<Rightarrow> ending io" where
  "serve_forever cfg w [] = ret Serving"
| "serve_forever cfg w (request_path # posts) =
     io_bind (try_except (do_POST cfg w request_path) (\<lambda>e. ret ()))
       (\<lambda>_. serve_forever cfg w posts)"

definition main :: "config \<Rightarrow> world \<Rightarrow> string list \<Rightarrow> string list \<Rightarrow> ending io" where
  "main cfg w argv posts =
     (let run_once = (''--once'' \<in> set argv)
      in io_bind (logging INFO ''Organizer starting. run_once=%s downloads_dir=%s''
                    [ABool run_once, APath (DOWNLOADS_DIR cfg)]) (\<lambda>_.
         io_bind (if TMDB_API_KEY cfg = []
                  then logging WARNING ''TMDB_API_KEY not set; using filename info only.'' []
                  else ret ()) (\<lambda>_.
         if run_once then io_bind (sweep_once cfg w) (\<lambda>_. ret Returned)
         else io_bind (HTTPServer w ''0.0.0.0'' 8000) (\<lambda>_.
              io_bind (logging INFO ''HTTP trigger server listening on 0.0.0.0:8000'' []) (\<lambda>_.
              serve_forever cfg w posts)))))"

section \<open>Vocabulary of the properties\<close>

text \<open>
  What the tag suffix is specified to contain: the values of the four quality fields that
  are present (and not empty), in the order screen size, source, video codec, audio
  codec; and \<open>first_seen\<close>, which keeps the first occurrence of every element.
\<close>

definition tag_values :: "info \<Rightarrow> string list" where
  "tag_values i =
     concat (map (\<lambda>v. case v of None \<Rightarrow> [] | Some s \<Rightarrow> [s])
       (filter truthy_str
         [info_screen_size i, info_source i, info_video_codec i, info_audio_codec i]))"

fun first_seen :: "'a list \<Rightarrow> 'a list" where
  "first_seen [] = []"
| "first_seen (x # xs) = x # first_seen (filter (\<lambda>y. y \<noteq> x) xs)"






subsection \<open>Example environments\<close>

text \<open>
  The default configuration, with and without an API key, and environments that answer
  every call the same way at every time.
\<close>

definition example_config :: config where
  "example_config =
     \<lparr>DOWNLOADS_DIR = Path ''/downloads/complete'', MOVIES_DIR = Path ''/media/movies'',
      TV_DIR = Path ''/media/tv'', TMDB_API_KEY = [], SLEEP_SECONDS = 300\<rparr>"

definition example_config_key :: config where
  "example_config_key = example_config\<lparr>TMDB_API_KEY := ''k3y''\<rparr>"

definition static_world ::
  "(path \<Rightarrow> exn + bool) \<Rightarrow> (path \<Rightarrow> exn + nat) \<Rightarrow> (string \<Rightarrow> exn + info) \<Rightarrow> (exn + response)
     \<Rightarrow> (exn + bool) \<Rightarrow> (string \<times> string list) list \<Rightarrow> world" where
  "static_world isf sz parse resp ex walk =
     \<lparr>env_is_file = (\<lambda>tr. isf), env_stat_size = (\<lambda>tr. sz), env_guessit = (\<lambda>tr. parse),
      env_get = (\<lambda>tr url params timeout. resp), env_mkdir = (\<lambda>tr p. Inr ()),
      env_move = (\<lambda>tr src dst. Inr ()), env_exists = (\<lambda>tr p. ex), env_walk = (\<lambda>tr p. walk),
      env_listen = (\<lambda>tr host port. Inr ())\<rparr>"

definition no_info :: info where
  "no_info =
     \<lparr>info_type = None, info_title = None, info_year = None, info_season = None,
      info_episode = None, info_screen_size = None, info_source = None,
      info_video_codec = None, info_audio_codec = None\<rparr>"

definition episode_info :: info where
  "episode_info =
     no_info\<lparr>info_type := Some ''episode'', info_title := Some ''breaking bad'',
             info_season := Some (IntValue 1), info_episode := Some (IntValue 1),
             info_screen_size := Some ''1080p''\<rparr>"


definition movie_guess :: info where
  "movie_guess =
     no_info\<lparr>info_type := Some ''movie'', info_title := Some ''inception'', info_year := Some 2010\<rparr>"


definition tagged_info :: info where
  "tagged_info =
     no_info\<lparr>info_screen_size := Some ''1080p'', info_source := Some ''web'',
             info_video_codec := Some ''h264'', info_audio_codec := Some ''H264''\<rparr>"

definition ok_response :: "candidate list \<Rightarrow> exn + response" where
  "ok_response cs = Inr \<lparr>resp_ok = True, resp_json = Inr \<lparr>payload_results = Some cs\<rparr>\<rparr>"

definition episode_path :: path where
  "episode_path = Div (Path ''/downloads/complete'') ''breaking.bad.s01e01.1080p.mkv''"


definition tv_world :: world where
  "tv_world =
     static_world (\<lambda>p. Inr True) (\<lambda>p. Inr (700 * 1024 * 1024)) (\<lambda>s. Inr episode_info)
       (ok_response [[(''name'', ''Breaking Bad''), (''first_air_date'', ''2008-01-20'')]])
       (Inr True) [(''/downloads/complete'', [''breaking.bad.s01e01.1080p.mkv''])]"


definition offline_world :: world where
  "offline_world =
     static_world (\<lambda>p. Inr True) (\<lambda>p. Inr (700 * 1024 * 1024)) (\<lambda>s. Inr movie_guess)
       (Inl (Exception ''ConnectionError''))
       (Inr True) [(''/downloads/complete'', [''inception.2010.mp4''])]"

definition superscript_world :: world where
  "superscript_world =
     static_world (\<lambda>p. Inr True) (\<lambda>p. Inr (700 * 1024 * 1024)) (\<lambda>s. Inr movie_guess)
       (ok_response [[(''title'', ''Inception''),
                      (''release_date'', CHR 0xB2 # ''010-01-01'')]])
       (Inr True) [(''/downloads/complete'', [''inception.2010.mp4''])]"

definition small_world :: world where
  "small_world =
     static_world (\<lambda>p. Inr True) (\<lambda>p. Inr (3 * 1024 * 1024)) (\<lambda>s. Inr movie_guess)
       (Inl (Exception ''ConnectionError''))
       (Inr True) [(''/downloads/complete'', [''sample.mkv''])]"

definition vanished_world :: world where
  "vanished_world =
     static_world (\<lambda>p. Inr False) (\<lambda>p. Inl (Exception ''FileNotFoundError''))
       (\<lambda>s. Inr movie_guess) (Inl (Exception ''ConnectionError''))
       (Inr True) [(''/downloads/complete'', [''gone.mkv''])]"

definition flaky_world :: world where
  "flaky_world =
     static_world (\<lambda>p. Inr True)
       (\<lambda>p. if p = Div (Path ''/downloads/complete'') ''b.mkv''
            then Inl (Exception ''FileNotFoundError'') else Inr 1024)
       (\<lambda>s. Inr no_info) (Inl (Exception ''ConnectionError''))
       (Inr True)
       [(''/downloads/complete'', [''a.mkv'', ''b.mkv'']), (''/downloads/complete/sub'', [''c.mkv''])]"

definition unmounted_world :: world where
  "unmounted_world =
     static_world (\<lambda>p. Inr False) (\<lambda>p. Inl (Exception ''FileNotFoundError''))
       (\<lambda>s. Inr no_info) (Inl (Exception ''ConnectionError'')) (Inr False) []"

section \<open>Properties\<close>

subsection \<open>Running a computation\<close>

lemma ret_apply: "ret x tr = (Inr x, [])"
  by (simp add: ret_def)

lemma io_bind_ret: "io_bind (ret x) f = f x"
  by (rule ext) (simp add: io_bind_def ret_def split: prod.splits)

lemma io_bind_call:
  "io_bind (call ev answer) f tr =
     (case answer tr of
        Inl e \<Rightarrow> (Inl e, [ev])
      | Inr x \<Rightarrow> (case f x (tr @ [ev]) of (r, evs) \<Rightarrow> (r, ev # evs)))"
  by (simp add: io_bind_def call_def split: sum.splits prod.splits)

lemma io_bind_logging:
  "io_bind (logging lvl fmt args) f tr =
     (case f () (tr @ [Log lvl fmt args]) of (r, evs) \<Rightarrow> (r, Log lvl fmt args # evs))"
  by (simp add: logging_def io_bind_call)

lemma logging_apply: "logging lvl fmt args tr = (Inr (), [Log lvl fmt args])"
  by (simp add: logging_def call_def)

lemma io_bind_json:
  "io_bind (json r) f tr = (case resp_json r of Inl e \<Rightarrow> (Inl e, []) | Inr d \<Rightarrow> f d tr)"
  by (simp add: io_bind_def json_def split: sum.splits prod.splits)

lemma try_except_logging:
  "try_except m (\<lambda>e. logging lvl fmt (args e)) tr =
     (case m tr of
        (Inl e, evs) \<Rightarrow> (Inr (), evs @ [Log lvl fmt (args e)])
      | (Inr x, evs) \<Rightarrow> (Inr x, evs))"
  by (simp add: try_except_def logging_apply split: prod.splits sum.splits)

lemma fst_io_bind_unit:
  assumes "fst (m tr) = Inr ()" and "\<And>tr'. fst (f () tr') = Inr ()"
  shows "fst (io_bind m f tr) = Inr ()"
proof -
  obtain evs where m: "m tr = (Inr (), evs)"
    using assms(1) by (cases "m tr") simp
  obtain r evs' where f: "f () (tr @ evs) = (r, evs')"
    by (cases "f () (tr @ evs)")
  from assms(2) [of "tr @ evs"] f have "r = Inr ()"
    by simp
  with m f show ?thesis
    by (simp add: io_bind_def)
qed

subsection \<open>The tag suffix\<close>

lemma set_first_seen: "set (first_seen xs) = set xs"
  by (induction xs rule: first_seen.induct) auto

lemma distinct_first_seen: "distinct (first_seen xs)"
  by (induction xs rule: first_seen.induct) (auto simp: set_first_seen)

lemma subseq_first_seen: "subseq (first_seen xs) xs"
proof (induction xs rule: first_seen.induct)
  case 1
  show ?case by simp
next
  case (2 x xs)
  have "subseq (filter (\<lambda>y. y \<noteq> x) xs) xs"
    by simp
  with 2 have "subseq (first_seen (filter (\<lambda>y. y \<noteq> x) xs)) xs"
    by (rule subseq_order.trans)
  then show ?case by simp
qed

lemma first_seen_Nil_iff: "first_seen xs = [] \<longleftrightarrow> xs = []"
  by (cases xs) auto

lemma uniq_loop_first_seen:
  "uniq_loop ts seen uniq = uniq @ first_seen (filter (\<lambda>t. t \<notin> seen) ts)"
proof (induction ts arbitrary: seen uniq)
  case Nil
  show ?case by simp
next
  case (Cons t ts)
  have "filter (\<lambda>y. y \<noteq> t) (filter (\<lambda>t. t \<notin> seen) ts) = filter (\<lambda>y. y \<notin> insert t seen) ts"
    by (induction ts) auto
  with Cons show ?case by simp
qed

lemma append_tags_values:
  "append_tag a @ append_tag b @ append_tag c @ append_tag d =
     map upper (concat (map (\<lambda>v. case v of None \<Rightarrow> [] | Some s \<Rightarrow> [s])
       (filter truthy_str [a, b, c, d])))"
  by (simp add: append_tag_def truthy_str_def split: option.splits)

text \<open>
  C3. \<open>build_tag_suffix\<close> returns the empty string when no quality field is present;
  otherwise it returns a space, an opening bracket, the tokens separated by single
  spaces, and a closing bracket, where the tokens are the upper-cased values of the
  fields screen size, source, video codec, audio codec that are present, each token kept
  at its first occurrence only: the token list has no element twice, has exactly the
  upper-cased values as its elements, and lists them in the order of the fields.
\<close>

theorem build_tag_suffix_tokens:
  "build_tag_suffix i =
     (if tag_values i = [] then []
      else '' ['' @ join '' '' (first_seen (map upper (tag_values i))) @ '']'')
   \<and> distinct (first_seen (map upper (tag_values i)))
   \<and> set (first_seen (map upper (tag_values i))) = set (map upper (tag_values i))
   \<and> subseq (first_seen (map upper (tag_values i))) (map upper (tag_values i))"
proof -
  have "uniq_loop (map upper (tag_values i)) {} [] = first_seen (map upper (tag_values i))"
    by (simp add: uniq_loop_first_seen)
  then have "build_tag_suffix i =
     (if tag_values i = [] then []
      else '' ['' @ join '' '' (first_seen (map upper (tag_values i))) @ '']'')"
    unfolding build_tag_suffix_def Let_def append_tags_values tag_values_def [symmetric]
    by (simp add: first_seen_Nil_iff)
  then show ?thesis
    by (simp add: distinct_first_seen set_first_seen subseq_first_seen)
qed

theorem build_tag_suffix_tokens_witness:
  "build_tag_suffix tagged_info = '' [1080P WEB H264]'' \<and> build_tag_suffix no_info = []"
  using build_tag_suffix_tokens [of tagged_info] build_tag_suffix_tokens [of no_info]
  by (simp add: tag_values_def tagged_info_def no_info_def truthy_str_def upper_def upper_char_def)

subsection \<open>Decimal digits\<close>



lemma str_nat_nonempty: "str_nat n \<noteq> []"
  by (subst str_nat.simps) simp





subsection \<open>The resolver\<close>

text \<open>What each search does, by the answer to its one request.\<close>

lemma tmdb_search_movie_no_key:
  "TMDB_API_KEY cfg = [] \<Longrightarrow> tmdb_search_movie cfg w title year tr = (Inr None, [])"
  by (simp add: tmdb_search_movie_def ret_def)

lemma tmdb_search_tv_no_key:
  "TMDB_API_KEY cfg = [] \<Longrightarrow> tmdb_search_tv cfg w title tr = (Inr None, [])"
  by (simp add: tmdb_search_tv_def ret_def)

lemma evaluate_apply: "evaluate x tr = (x, [])"
  by (simp add: evaluate_def)

lemma io_bind_evaluate_Inl: "io_bind (evaluate (Inl e)) f = evaluate (Inl e)"
  by (rule ext) (simp add: io_bind_def evaluate_def)

lemma io_bind_evaluate_Inr: "io_bind (evaluate (Inr v)) f = f v"
  by (rule ext) (simp add: io_bind_def evaluate_def split: prod.splits)

lemmas io_bind_evaluate = io_bind_evaluate_Inl io_bind_evaluate_Inr evaluate_apply

lemma tmdb_search_movie_run:
  assumes "TMDB_API_KEY cfg \<noteq> []"
  shows "tmdb_search_movie cfg w title year tr =
    (case env_get w tr (TMDB_BASE @ ''/search/movie'') (movie_params cfg title year) 10 of
       Inl e \<Rightarrow> Inl e
     | Inr r \<Rightarrow>
         if \<not> resp_ok r then Inr None
         else (case resp_json r of
                 Inl e \<Rightarrow> Inl e
               | Inr data \<Rightarrow>
                   (case results_or_empty data of
                      [] \<Rightarrow> Inr None
                    | best # rest \<Rightarrow>
                        if isdigit (take 4 (get_or best ''release_date'' []))
                        then (case int_str (take 4 (get_or best ''release_date'' [])) of
                                Inl e \<Rightarrow> Inl e
                              | Inr n \<Rightarrow>
                                  Inr (Some \<lparr>movie_title = get_or best ''title'' title,
                                             movie_year = Some n\<rparr>))
                        else Inr (Some \<lparr>movie_title = get_or best ''title'' title,
                                        movie_year = (if truthy_num year then year else None)\<rparr>))),
     [Get (TMDB_BASE @ ''/search/movie'') (movie_params cfg title year) 10])"
  using assms
  by (simp add: tmdb_search_movie_def Let_def requests_get_def io_bind_call io_bind_json
      io_bind_evaluate io_bind_ret split: sum.splits list.splits)
    (simp_all add: ret_def io_bind_def)

lemma tmdb_search_tv_run:
  assumes "TMDB_API_KEY cfg \<noteq> []"
  shows "tmdb_search_tv cfg w title tr =
    (case env_get w tr (TMDB_BASE @ ''/search/tv'') (tv_params cfg title) 10 of
       Inl e \<Rightarrow> Inl e
     | Inr r \<Rightarrow>
         if \<not> resp_ok r then Inr None
         else (case resp_json r of
                 Inl e \<Rightarrow> Inl e
               | Inr data \<Rightarrow>
                   (case results_or_empty data of
                      [] \<Rightarrow> Inr None
                    | best # rest \<Rightarrow>
                        if isdigit (take 4 (get_or best ''first_air_date'' []))
                        then (case int_str (take 4 (get_or best ''first_air_date'' [])) of
                                Inl e \<Rightarrow> Inl e
                              | Inr n \<Rightarrow>
                                  Inr (Some \<lparr>tv_name = get_or best ''name'' title,
                                             tv_year = Some n\<rparr>))
                        else Inr (Some \<lparr>tv_name = get_or best ''name'' title, tv_year = None\<rparr>))),
     [Get (TMDB_BASE @ ''/search/tv'') (tv_params cfg title) 10])"
  using assms
  by (simp add: tmdb_search_tv_def Let_def requests_get_def io_bind_call io_bind_json
      io_bind_evaluate io_bind_ret split: sum.splits list.splits)
    (simp_all add: ret_def io_bind_def)

lemma get_or_nonempty: "dflt \<noteq> [] \<Longrightarrow> get_or d key dflt \<noteq> []"
  by (simp add: get_or_def split: option.splits)

lemma tmdb_search_tv_name:
  assumes "tmdb_search_tv cfg w t tr = (Inr (Some r), evs)" and "t \<noteq> []"
  shows "tv_name r \<noteq> []"
proof (cases "TMDB_API_KEY cfg = []")
  case True
  with assms(1) show ?thesis
    by (simp add: tmdb_search_tv_no_key)
next
  case False
  from assms(1) show ?thesis
    by (auto simp: tmdb_search_tv_run [OF False] get_or_nonempty [OF assms(2)]
        split: sum.splits if_splits list.splits)
qed




subsection \<open>The sweep never raises\<close>

lemma fst_try_process_file:
  "fst (try_except (process_file cfg w p) (\<lambda>e. logging ERROR fmt [APath p, AExn e]) tr) = Inr ()"
  by (simp add: try_except_logging split: prod.splits sum.splits)

lemma sweep_files_returns: "fst (sweep_files cfg w root files tr) = Inr ()"
proof (induction files arbitrary: tr)
  case Nil
  show ?case by (simp add: ret_def)
next
  case (Cons nm files)
  show ?case
    unfolding sweep_files.simps
    by (rule fst_io_bind_unit) (rule fst_try_process_file, rule Cons.IH)
qed

lemma sweep_walk_returns: "fst (sweep_walk cfg w walk tr) = Inr ()"
proof (induction walk arbitrary: tr)
  case Nil
  show ?case by (simp add: ret_def)
next
  case (Cons dir walk)
  obtain root files where dir: "dir = (root, files)"
    by (cases dir)
  show ?case
    unfolding dir sweep_walk.simps
    by (rule fst_io_bind_unit) (rule sweep_files_returns, rule Cons.IH)
qed

subsection \<open>Failures of the resolver\<close>

text \<open>
  C4, as the program has it. With no API key both searches return \<open>None\<close> and make
  no call at all. With a key, a response whose status is not a success and a response
  with an empty (or missing) result list give \<open>None\<close>. A network error (the request
  raises) and a malformed response (reading the JSON raises) do not give \<open>None\<close>: the
  exception leaves the search. It does not abort the sweep: the loops of the sweep return
  normally whatever happens to a file, the exception being caught at the file's own
  \<^verbatim>\<open>try\<close>.
\<close>

theorem resolver_failure_results:
  assumes "gm = env_get w tr (TMDB_BASE @ ''/search/movie'') (movie_params cfg title year) 10"
    and "gt = env_get w tr (TMDB_BASE @ ''/search/tv'') (tv_params cfg title) 10"
  shows
    "(TMDB_API_KEY cfg = [] \<longrightarrow>
        tmdb_search_movie cfg w title year tr = (Inr None, [])
        \<and> tmdb_search_tv cfg w title tr = (Inr None, []))
     \<and> (TMDB_API_KEY cfg \<noteq> [] \<longrightarrow>
          (\<forall>r. gm = Inr r \<and> \<not> resp_ok r \<longrightarrow>
             fst (tmdb_search_movie cfg w title year tr) = Inr None)
        \<and> (\<forall>r d. gm = Inr r \<and> resp_ok r \<and> resp_json r = Inr d \<and> results_or_empty d = [] \<longrightarrow>
             fst (tmdb_search_movie cfg w title year tr) = Inr None)
        \<and> (\<forall>e. gm = Inl e \<longrightarrow> fst (tmdb_search_movie cfg w title year tr) = Inl e)
        \<and> (\<forall>r e. gm = Inr r \<and> resp_ok r \<and> resp_json r = Inl e \<longrightarrow>
             fst (tmdb_search_movie cfg w title year tr) = Inl e)
        \<and> (\<forall>r. gt = Inr r \<and> \<not> resp_ok r \<longrightarrow>
             fst (tmdb_search_tv cfg w title tr) = Inr None)
        \<and> (\<forall>r d. gt = Inr r \<and> resp_ok r \<and> resp_json r = Inr d \<and> results_or_empty d = [] \<longrightarrow>
             fst (tmdb_search_tv cfg w title tr) = Inr None)
        \<and> (\<forall>e. gt = Inl e \<longrightarrow> fst (tmdb_search_tv cfg w title tr) = Inl e)
        \<and> (\<forall>r e. gt = Inr r \<and> resp_ok r \<and> resp_json r = Inl e \<longrightarrow>
             fst (tmdb_search_tv cfg w title tr) = Inl e))
     \<and> fst (sweep_files cfg w root files tr') = Inr ()
     \<and> fst (sweep_walk cfg w walk tr') = Inr ()"
proof (intro conjI impI)
  assume "TMDB_API_KEY cfg = []"
  then show "tmdb_search_movie cfg w title year tr = (Inr None, [])"
    and "tmdb_search_tv cfg w title tr = (Inr None, [])"
    by (simp_all add: tmdb_search_movie_no_key tmdb_search_tv_no_key)
next
  assume key: "TMDB_API_KEY cfg \<noteq> []"
  note m = tmdb_search_movie_run [OF key, of w title year tr, folded assms(1)]
  note t = tmdb_search_tv_run [OF key, of w title tr, folded assms(2)]
  show "\<forall>r. gm = Inr r \<and> \<not> resp_ok r \<longrightarrow> fst (tmdb_search_movie cfg w title year tr) = Inr None"
    by (simp add: m)
  show "\<forall>r d. gm = Inr r \<and> resp_ok r \<and> resp_json r = Inr d \<and> results_or_empty d = [] \<longrightarrow>
             fst (tmdb_search_movie cfg w title year tr) = Inr None"
    by (simp add: m)
  show "\<forall>e. gm = Inl e \<longrightarrow> fst (tmdb_search_movie cfg w title year tr) = Inl e"
    by (simp add: m)
  show "\<forall>r e. gm = Inr r \<and> resp_ok r \<and> resp_json r = Inl e \<longrightarrow>
             fst (tmdb_search_movie cfg w title year tr) = Inl e"
    by (simp add: m)
  show "\<forall>r. gt = Inr r \<and> \<not> resp_ok r \<longrightarrow> fst (tmdb_search_tv cfg w title tr) = Inr None"
    by (simp add: t)
  show "\<forall>r d. gt = Inr r \<and> resp_ok r \<and> resp_json r = Inr d \<and> results_or_empty d = [] \<longrightarrow>
             fst (tmdb_search_tv cfg w title tr) = Inr None"
    by (simp add: t)
  show "\<forall>e. gt = Inl e \<longrightarrow> fst (tmdb_search_tv cfg w title tr) = Inl e"
    by (simp add: t)
  show "\<forall>r e. gt = Inr r \<and> resp_ok r \<and> resp_json r = Inl e \<longrightarrow>
             fst (tmdb_search_tv cfg w title tr) = Inl e"
    by (simp add: t)
next
  show "fst (sweep_files cfg w root files tr') = Inr ()"
    by (rule sweep_files_returns)
  show "fst (sweep_walk cfg w walk tr') = Inr ()"
    by (rule sweep_walk_returns)
qed

theorem resolver_failure_results_witness:
  "tmdb_search_movie example_config offline_world ''inception'' (Some 2010) [] = (Inr None, [])
   \<and> tmdb_search_tv example_config offline_world ''inception'' [] = (Inr None, [])
   \<and> fst (tmdb_search_movie example_config_key offline_world ''inception'' (Some 2010) []) =
       Inl (Exception ''ConnectionError'')
   \<and> fst (tmdb_search_tv example_config_key offline_world ''inception'' []) =
       Inl (Exception ''ConnectionError'')
   \<and> fst (sweep_files example_config_key offline_world ''/downloads/complete''
              [''inception.2010.mp4''] []) = Inr ()"
  using
    resolver_failure_results [where cfg = example_config and w = offline_world
      and title = "''inception''" and year = "Some 2010" and tr = "[]"
      and root = "''/downloads/complete''" and files = "[''inception.2010.mp4'']"
      and tr' = "[]" and walk = "[]", OF refl refl]
    resolver_failure_results [where cfg = example_config_key and w = offline_world
      and title = "''inception''" and year = "Some 2010" and tr = "[]"
      and root = "''/downloads/complete''" and files = "[''inception.2010.mp4'']"
      and tr' = "[]" and walk = "[]", OF refl refl]
  by (simp add: example_config_def example_config_key_def offline_world_def static_world_def)

text \<open>
  C4 as stated fails: with a key configured and the network down,
  \<open>tmdb_search_movie\<close> raises the \<^verbatim>\<open>ConnectionError\<close> of the request instead
  of returning \<open>None\<close>.
\<close>

theorem resolver_network_error_counterexample:
  "TMDB_API_KEY example_config_key \<noteq> []
   \<and> env_get offline_world [] (TMDB_BASE @ ''/search/movie'')
         (movie_params example_config_key ''inception'' (Some 2010)) 10 =
       Inl (Exception ''ConnectionError'')
   \<and> tmdb_search_movie example_config_key offline_world ''inception'' (Some 2010) [] \<noteq>
       (Inr None, [Get (TMDB_BASE @ ''/search/movie'')
                     (movie_params example_config_key ''inception'' (Some 2010)) 10])
   \<and> fst (tmdb_search_movie example_config_key offline_world ''inception'' (Some 2010) []) =
       Inl (Exception ''ConnectionError'')"
  by (simp add: tmdb_search_movie_run example_config_def example_config_key_def offline_world_def static_world_def)

subsection \<open>The resolved year\<close>



text \<open>
  A release date that starts with the superscript two: \<^verbatim>\<open>isdigit\<close> holds of its
  first four characters, \<^verbatim>\<open>int\<close> raises, and so does the search.
\<close>

lemma tmdb_search_movie_superscript:
  "tmdb_search_movie example_config_key superscript_world ''inception'' (Some 1999) [] =
     (Inl (Exception ''ValueError''),
      [Get ''https://api.themoviedb.org/3/search/movie''
         [(''api_key'', PStr ''k3y''), (''query'', PStr ''inception''), (''year'', PInt 1999)] 10])"
  by (simp add: tmdb_search_movie_run example_config_def example_config_key_def
      superscript_world_def static_world_def ok_response_def TMDB_BASE_def movie_params_def
      results_or_empty_def get_or_def isdigit_def int_str_def is_decimal_char_def
      is_superscript_digit_def)

subsection \<open>Destinations\<close>

text \<open>
  What \<open>handle_episode\<close> does with a title, a season and an episode, in every
  environment: it raises what the search raises, or what formatting the season raises,
  or what creating the season directory raises, or what formatting the episode raises,
  or it moves the file, and then to one destination only.
\<close>

lemma handle_episode_run:
  assumes "info_title i = Some t" and "t \<noteq> []"
    and "info_season i = Some season" and "info_episode i = Some episode"
  shows "handle_episode cfg w p i tr =
    (case tmdb_search_tv cfg w t tr of
       (Inl ex, evs) \<Rightarrow> (Inl ex, evs)
     | (Inr resolved, evs) \<Rightarrow>
         (case format_02d_value season of
            Inl ex \<Rightarrow> (Inl ex, evs)
          | Inr ss \<Rightarrow>
              (let show_name = (case resolved of None \<Rightarrow> t | Some r \<Rightarrow> tv_name r);
                   season_dir = Div (Div (TV_DIR cfg) show_name) (''Season '' @ ss)
               in case env_mkdir w (tr @ evs) season_dir of
                    Inl ex \<Rightarrow> (Inl ex, evs @ [Mkdir season_dir])
                  | Inr u \<Rightarrow>
                      (case format_02d_value episode of
                         Inl ex \<Rightarrow> (Inl ex, evs @ [Mkdir season_dir])
                       | Inr ee \<Rightarrow>
                           (let dest = Div season_dir
                                         (show_name @ '' - S'' @ ss @ ''E'' @ ee
                                          @ build_tag_suffix i @ suffix_path p)
                            in (env_move w (tr @ evs @ [Mkdir season_dir,
                                              Log INFO ''TV: %s -> %s'' [APath p, APath dest]])
                                  p dest,
                                evs @ [Mkdir season_dir,
                                       Log INFO ''TV: %s -> %s'' [APath p, APath dest],
                                       Move p dest]))))))"
proof -
  obtain r evs where search: "tmdb_search_tv cfg w t tr = (r, evs)"
    by (cases "tmdb_search_tv cfg w t tr")
  show ?thesis
  proof (cases r)
    case (Inl ex)
    with search assms show ?thesis
      by (simp add: handle_episode_def io_bind_def)
  next
    case (Inr resolved)
    have name: "(case resolved of None \<Rightarrow> t | Some r \<Rightarrow> if tv_name r \<noteq> [] then tv_name r else t)
                = (case resolved of None \<Rightarrow> t | Some r \<Rightarrow> tv_name r)"
    proof (cases resolved)
      case None
      then show ?thesis by simp
    next
      case (Some r')
      with search Inr assms(2) have "tv_name r' \<noteq> []"
        by (simp add: tmdb_search_tv_name)
      with Some show ?thesis by simp
    qed
    from search Inr assms show ?thesis
      by (simp add: handle_episode_def io_bind_def name Let_def mkdir_def shutil_move_def
          call_def logging_def evaluate_def split: sum.splits)
  qed
qed

lemma format_02d_value_IntValue: "format_02d_value (IntValue n) = Inr (format_02d n)"
  by (simp add: format_02d_value_def)

lemma format_02d_value_ListValue: "format_02d_value (ListValue ns) = Inl (Exception ''TypeError'')"
  by (simp add: format_02d_value_def)












subsection \<open>The guards of process\_file\<close>

text \<open>
  C6. A regular file smaller than \<open>MIN_SIZE_BYTES\<close> (50 MiB) is skipped after the
  size check: \<open>process_file\<close> asks whether it is a file, reads its size, logs, and
  returns; it neither calls guessit nor moves anything.
\<close>

theorem process_file_small:
  assumes "env_is_file w tr p = Inr True"
    and "env_stat_size w (tr @ [IsFile p]) p = Inr sz"
    and "sz < MIN_SIZE_BYTES"
  shows "process_file cfg w p tr =
           (Inr (), [IsFile p, Stat p, Log INFO ''Skipping small file: %s'' [APath p]])
       \<and> (\<forall>s. Guessit s \<notin> set (snd (process_file cfg w p tr)))
       \<and> (\<forall>src dst. Move src dst \<notin> set (snd (process_file cfg w p tr)))
       \<and> MIN_SIZE_BYTES = 50 * 2 ^ 20"
proof -
  have "process_file cfg w p tr =
           (Inr (), [IsFile p, Stat p, Log INFO ''Skipping small file: %s'' [APath p]])"
    using assms
    by (simp add: process_file_def is_file_def stat_st_size_def io_bind_call logging_apply)
  then show ?thesis
    by (simp add: MIN_SIZE_BYTES_def)
qed

theorem process_file_small_witness:
  "3 * 1024 * 1024 < MIN_SIZE_BYTES
   \<and> process_file example_config small_world (Div (Path ''/downloads/complete'') ''sample.mkv'') [] =
       (Inr (),
        [IsFile (Div (Path ''/downloads/complete'') ''sample.mkv''),
         Stat (Div (Path ''/downloads/complete'') ''sample.mkv''),
         Log INFO ''Skipping small file: %s'' [APath (Div (Path ''/downloads/complete'') ''sample.mkv'')]])"
  using process_file_small [of small_world "[]" "Div (Path ''/downloads/complete'') ''sample.mkv''"
      "3 * 1024 * 1024" example_config]
  by (simp add: small_world_def static_world_def MIN_SIZE_BYTES_def)

text \<open>
  C10. For a path that is not an existing regular file when it is processed,
  \<open>process_file\<close> returns normally after the one call of \<^verbatim>\<open>is_file\<close>: it
  does not read the size, does not call guessit and moves nothing.
\<close>

theorem process_file_not_file:
  assumes "env_is_file w tr p = Inr False"
  shows "process_file cfg w p tr = (Inr (), [IsFile p])
       \<and> (\<forall>q. Stat q \<notin> set (snd (process_file cfg w p tr)))
       \<and> (\<forall>s. Guessit s \<notin> set (snd (process_file cfg w p tr)))
       \<and> (\<forall>src dst. Move src dst \<notin> set (snd (process_file cfg w p tr)))"
proof -
  have "process_file cfg w p tr = (Inr (), [IsFile p])"
    using assms
    by (simp add: process_file_def is_file_def io_bind_call ret_def)
  then show ?thesis
    by simp
qed

theorem process_file_not_file_witness:
  "process_file example_config vanished_world (Div (Path ''/downloads/complete'') ''gone.mkv'') [] =
     (Inr (), [IsFile (Div (Path ''/downloads/complete'') ''gone.mkv'')])"
  using process_file_not_file [of vanished_world "[]" "Div (Path ''/downloads/complete'') ''gone.mkv''"
      example_config]
  by (simp add: vanished_world_def static_world_def)

subsection \<open>The sweep\<close>

























lemma sweep_once_found:
  assumes "env_exists w tr (DOWNLOADS_DIR cfg) = Inr True"
  shows "sweep_once cfg w tr =
    (case sweep_walk cfg w (env_walk w (tr @ [Exists (DOWNLOADS_DIR cfg)]) (DOWNLOADS_DIR cfg))
            (tr @ [Exists (DOWNLOADS_DIR cfg), Walk (DOWNLOADS_DIR cfg)]) of
       (r, evs) \<Rightarrow> (r, Exists (DOWNLOADS_DIR cfg) # Walk (DOWNLOADS_DIR cfg) # evs))"
  using assms
  by (simp add: sweep_once_def exists_def os_walk_def io_bind_call split: prod.splits)



text \<open>The whole run of that sweep: the second file vanishes before its size is read.\<close>

lemma sweep_once_flaky_trace:
  "sweep_once example_config flaky_world [] =
     (Inr (),
      [Exists (Path ''/downloads/complete''), Walk (Path ''/downloads/complete''),
       IsFile (Div (Path ''/downloads/complete'') ''a.mkv''),
       Stat (Div (Path ''/downloads/complete'') ''a.mkv''),
       Log INFO ''Skipping small file: %s'' [APath (Div (Path ''/downloads/complete'') ''a.mkv'')],
       IsFile (Div (Path ''/downloads/complete'') ''b.mkv''),
       Stat (Div (Path ''/downloads/complete'') ''b.mkv''),
       Log ERROR ''Error processing %s: %s''
         [APath (Div (Path ''/downloads/complete'') ''b.mkv''), AExn (Exception ''FileNotFoundError'')],
       IsFile (Div (Path ''/downloads/complete/sub'') ''c.mkv''),
       Stat (Div (Path ''/downloads/complete/sub'') ''c.mkv''),
       Log INFO ''Skipping small file: %s'' [APath (Div (Path ''/downloads/complete/sub'') ''c.mkv'')]])"
  by (simp add: sweep_once_def exists_def os_walk_def io_bind_call process_file_def is_file_def
      stat_st_size_def logging_apply try_except_logging io_bind_def ret_def call_def
      flaky_world_def static_world_def example_config_def MIN_SIZE_BYTES_def)

text \<open>
  A sweep with the API key set over one episode file: every stage of the pipeline, from
  the enumeration to the move.
\<close>

lemma format_02d_1: "format_02d (Suc 0) = ''01''"
  by (simp add: format_02d_def str_nat.simps digit_char_def)

lemma sweep_once_tv_example:
  "sweep_once example_config_key tv_world [] =
     (Inr (),
      [Exists (Path ''/downloads/complete''), Walk (Path ''/downloads/complete''),
       IsFile episode_path, Stat episode_path, Guessit ''breaking.bad.s01e01.1080p.mkv'',
       Log DEBUG ''Guessit for %s: %s'' [AStr ''breaking.bad.s01e01.1080p.mkv'', AInfo episode_info],
       Get ''https://api.themoviedb.org/3/search/tv''
         [(''api_key'', PStr ''k3y''), (''query'', PStr ''breaking bad'')] 10,
       Mkdir (Div (Div (Path ''/media/tv'') ''Breaking Bad'') ''Season 01''),
       Log INFO ''TV: %s -> %s''
         [APath episode_path,
          APath (Div (Div (Div (Path ''/media/tv'') ''Breaking Bad'') ''Season 01'')
                   ''Breaking Bad - S01E01 [1080P].mkv'')],
       Move episode_path
         (Div (Div (Div (Path ''/media/tv'') ''Breaking Bad'') ''Season 01'')
            ''Breaking Bad - S01E01 [1080P].mkv'')])"
proof -
  have info: "info_title episode_info = Some ''breaking bad''"
    "info_season episode_info = Some (IntValue (Suc 0))"
    "info_episode episode_info = Some (IntValue (Suc 0))"
    "info_type episode_info = Some ''episode''"
    by (simp_all add: episode_info_def no_info_def)
  have tag: "build_tag_suffix episode_info = '' [1080P]''"
    by (simp add: build_tag_suffix_def append_tag_def episode_info_def no_info_def upper_def
        upper_char_def)
  have ext: "suffix_path episode_path = ''.mkv''"
    by (simp add: suffix_path_def episode_path_def)
  have nm: "name episode_path = ''breaking.bad.s01e01.1080p.mkv''"
    by (simp add: episode_path_def)
  have search: "tmdb_search_tv example_config_key tv_world ''breaking bad'' tr =
     (Inr (Some \<lparr>tv_name = ''Breaking Bad'', tv_year = Some 2008\<rparr>),
      [Get ''https://api.themoviedb.org/3/search/tv''
         [(''api_key'', PStr ''k3y''), (''query'', PStr ''breaking bad'')] 10])" for tr
    by (simp add: tmdb_search_tv_run example_config_def example_config_key_def tv_world_def
        static_world_def ok_response_def TMDB_BASE_def tv_params_def results_or_empty_def
        get_or_def isdigit_def int_str_def is_decimal_char_def int_of_digits_def digit_val_def)
  have env: "env_mkdir tv_world tr d = Inr ()" "env_move tv_world tr a b = Inr ()"
    "TV_DIR example_config_key = Path ''/media/tv''"
    "env_is_file tv_world tr d = Inr True" "env_stat_size tv_world tr d = Inr (700 * 1024 * 1024)"
    "env_guessit tv_world tr n = Inr episode_info"
    "env_exists tv_world tr d = Inr True"
    "env_walk tv_world tr d = [(''/downloads/complete'', [''breaking.bad.s01e01.1080p.mkv''])]"
    "DOWNLOADS_DIR example_config_key = Path ''/downloads/complete''"
    for tr d a b n
    by (simp_all add: tv_world_def static_world_def example_config_key_def example_config_def)
  have episode: "handle_episode example_config_key tv_world episode_path episode_info tr =
     (Inr (),
      [Get ''https://api.themoviedb.org/3/search/tv''
         [(''api_key'', PStr ''k3y''), (''query'', PStr ''breaking bad'')] 10,
       Mkdir (Div (Div (Path ''/media/tv'') ''Breaking Bad'') ''Season 01''),
       Log INFO ''TV: %s -> %s''
         [APath episode_path,
          APath (Div (Div (Div (Path ''/media/tv'') ''Breaking Bad'') ''Season 01'')
                   ''Breaking Bad - S01E01 [1080P].mkv'')],
       Move episode_path
         (Div (Div (Div (Path ''/media/tv'') ''Breaking Bad'') ''Season 01'')
            ''Breaking Bad - S01E01 [1080P].mkv'')])" for tr
    by (simp add: handle_episode_run [OF info(1) _ info(2) info(3)] search tag ext format_02d_1
        format_02d_value_IntValue Let_def env)
  have run: "process_file example_config_key tv_world episode_path tr =
     (Inr (),
      [IsFile episode_path, Stat episode_path, Guessit ''breaking.bad.s01e01.1080p.mkv'',
       Log DEBUG ''Guessit for %s: %s'' [AStr ''breaking.bad.s01e01.1080p.mkv'', AInfo episode_info],
       Get ''https://api.themoviedb.org/3/search/tv''
         [(''api_key'', PStr ''k3y''), (''query'', PStr ''breaking bad'')] 10,
       Mkdir (Div (Div (Path ''/media/tv'') ''Breaking Bad'') ''Season 01''),
       Log INFO ''TV: %s -> %s''
         [APath episode_path,
          APath (Div (Div (Div (Path ''/media/tv'') ''Breaking Bad'') ''Season 01'')
                   ''Breaking Bad - S01E01 [1080P].mkv'')],
       Move episode_path
         (Div (Div (Div (Path ''/media/tv'') ''Breaking Bad'') ''Season 01'')
            ''Breaking Bad - S01E01 [1080P].mkv'')])" for tr
    by (simp add: process_file_def is_file_def stat_st_size_def guessit_def io_bind_call
        io_bind_logging nm info(4) episode env MIN_SIZE_BYTES_def)
  show ?thesis
    by (simp add: sweep_once_found env io_bind_def try_except_logging ret_def
        run [unfolded episode_path_def] episode_path_def)
qed

subsection \<open>The HTTP trigger\<close>

lemma sweep_once_absent:
  assumes "env_exists w tr (DOWNLOADS_DIR cfg) = Inr False"
  shows "sweep_once cfg w tr =
    (Inr (), [Exists (DOWNLOADS_DIR cfg),
              Log WARNING ''Downloads dir %s does not exist'' [APath (DOWNLOADS_DIR cfg)]])"
  using assms
  by (simp add: sweep_once_def exists_def io_bind_call logging_apply)

lemma do_POST_scan_once:
  "do_POST cfg w ''/scan-once'' tr =
     (case sweep_once cfg w (tr @ [Log INFO ''HTTP trigger received: running sweep_once()'' []]) of
        (Inr u, evs) \<Rightarrow>
          (Inr (), Log INFO ''HTTP trigger received: running sweep_once()'' [] # evs
                   @ [SendResponse 200, EndHeaders, WFileWrite ''OK''])
      | (Inl e, evs) \<Rightarrow>
          (Inr (), Log INFO ''HTTP trigger received: running sweep_once()'' [] # evs
                   @ [Log ERROR ''Error in sweep_once() from HTTP trigger: %s'' [AExn e],
                      SendResponse 500, EndHeaders, WFileWrite ''ERROR'']))"
  by (simp add: do_POST_def io_bind_logging try_except_def io_bind_def send_response_def
      end_headers_def wfile_write_def call_def logging_def split: prod.splits sum.splits)

text \<open>
  The trigger answers 500 when the sweep raises, which in this program only the test of
  the downloads directory itself can make it do (the loops never raise).
\<close>

lemma do_POST_exists_raises:
  assumes "env_exists w (tr @ [Log INFO ''HTTP trigger received: running sweep_once()'' []])
             (DOWNLOADS_DIR cfg) = Inl e"
  shows "do_POST cfg w ''/scan-once'' tr =
           (Inr (), [Log INFO ''HTTP trigger received: running sweep_once()'' [],
                     Exists (DOWNLOADS_DIR cfg),
                     Log ERROR ''Error in sweep_once() from HTTP trigger: %s'' [AExn e],
                     SendResponse 500, EndHeaders, WFileWrite ''ERROR''])"
  using assms
  by (simp add: do_POST_scan_once sweep_once_def exists_def io_bind_call)

lemma sweep_once_raises_iff:
  "fst (sweep_once cfg w tr) = Inl e \<longleftrightarrow> env_exists w tr (DOWNLOADS_DIR cfg) = Inl e"
proof (cases "env_exists w tr (DOWNLOADS_DIR cfg)")
  case (Inl e')
  then show ?thesis
    by (simp add: sweep_once_def exists_def io_bind_call)
next
  case (Inr found)
  show ?thesis
  proof (cases found)
    case True
    with Inr have "fst (sweep_once cfg w tr) = Inr ()"
      by (simp add: sweep_once_found sweep_walk_returns split: prod.splits)
        (metis fst_conv sweep_walk_returns)
    with Inr show ?thesis by simp
  next
    case False
    with Inr show ?thesis
      by (simp add: sweep_once_absent)
  qed
qed

text \<open>
  C8, as the program has it. When the downloads directory does not exist,
  \<open>sweep_once\<close> logs a warning and returns normally without processing any file;
  run from the HTTP trigger, the request is answered with status 200 and the body
  \<^verbatim>\<open>OK\<close>.
\<close>

theorem absent_root_answered_ok:
  assumes "env_exists w tr (DOWNLOADS_DIR cfg) = Inr False"
    and "env_exists w (tr @ [Log INFO ''HTTP trigger received: running sweep_once()'' []])
           (DOWNLOADS_DIR cfg) = Inr False"
  shows "sweep_once cfg w tr =
           (Inr (), [Exists (DOWNLOADS_DIR cfg),
                     Log WARNING ''Downloads dir %s does not exist'' [APath (DOWNLOADS_DIR cfg)]])
       \<and> do_POST cfg w ''/scan-once'' tr =
           (Inr (), [Log INFO ''HTTP trigger received: running sweep_once()'' [],
                     Exists (DOWNLOADS_DIR cfg),
                     Log WARNING ''Downloads dir %s does not exist'' [APath (DOWNLOADS_DIR cfg)],
                     SendResponse 200, EndHeaders, WFileWrite ''OK''])"
  using sweep_once_absent [OF assms(1)] sweep_once_absent [OF assms(2)]
  by (simp add: do_POST_scan_once)

theorem absent_root_answered_ok_witness:
  "env_exists unmounted_world [] (DOWNLOADS_DIR example_config) = Inr False
   \<and> sweep_once example_config unmounted_world [] =
       (Inr (), [Exists (Path ''/downloads/complete''),
                 Log WARNING ''Downloads dir %s does not exist'' [APath (Path ''/downloads/complete'')]])
   \<and> do_POST example_config unmounted_world ''/scan-once'' [] =
       (Inr (), [Log INFO ''HTTP trigger received: running sweep_once()'' [],
                 Exists (Path ''/downloads/complete''),
                 Log WARNING ''Downloads dir %s does not exist'' [APath (Path ''/downloads/complete'')],
                 SendResponse 200, EndHeaders, WFileWrite ''OK''])"
  using absent_root_answered_ok [of unmounted_world "[]" example_config]
  by (simp add: unmounted_world_def static_world_def example_config_def)

text \<open>
  C8 as stated fails: with the downloads directory absent, the trigger sends neither
  status 500 nor the body \<^verbatim>\<open>ERROR\<close>.
\<close>

theorem absent_root_counterexample:
  "env_exists unmounted_world [Log INFO ''HTTP trigger received: running sweep_once()'' []]
       (DOWNLOADS_DIR example_config) = Inr False
   \<and> SendResponse 500 \<notin> set (snd (do_POST example_config unmounted_world ''/scan-once'' []))
   \<and> WFileWrite ''ERROR'' \<notin> set (snd (do_POST example_config unmounted_world ''/scan-once'' []))
   \<and> SendResponse 200 \<in> set (snd (do_POST example_config unmounted_world ''/scan-once'' []))
   \<and> WFileWrite ''OK'' \<in> set (snd (do_POST example_config unmounted_world ''/scan-once'' []))"
  by (simp add: do_POST_scan_once sweep_once_def exists_def io_bind_call logging_apply
      unmounted_world_def static_world_def example_config_def)

subsection \<open>Server mode\<close>

text \<open>\<open>SLEEP_SECONDS\<close> is read by nothing.\<close>

lemma tmdb_search_movie_SLEEP:
  "tmdb_search_movie (cfg\<lparr>SLEEP_SECONDS := s\<rparr>) = tmdb_search_movie cfg"
  by (intro ext) (simp add: tmdb_search_movie_def movie_params_def)

lemma tmdb_search_tv_SLEEP:
  "tmdb_search_tv (cfg\<lparr>SLEEP_SECONDS := s\<rparr>) = tmdb_search_tv cfg"
  by (intro ext) (simp add: tmdb_search_tv_def tv_params_def)

lemma handle_episode_SLEEP:
  "handle_episode (cfg\<lparr>SLEEP_SECONDS := s\<rparr>) = handle_episode cfg"
  by (intro ext) (simp add: handle_episode_def tmdb_search_tv_SLEEP cong: option.case_cong prod.case_cong if_cong)

lemma handle_movie_SLEEP:
  "handle_movie (cfg\<lparr>SLEEP_SECONDS := s\<rparr>) = handle_movie cfg"
  by (intro ext) (simp add: handle_movie_def tmdb_search_movie_SLEEP cong: option.case_cong if_cong)

lemma process_file_SLEEP:
  "process_file (cfg\<lparr>SLEEP_SECONDS := s\<rparr>) = process_file cfg"
  by (intro ext) (simp add: process_file_def handle_episode_SLEEP handle_movie_SLEEP cong: if_cong)

lemma sweep_files_SLEEP:
  "sweep_files (cfg\<lparr>SLEEP_SECONDS := s\<rparr>) w root files = sweep_files cfg w root files"
  by (induction files) (simp_all add: process_file_SLEEP)

lemma sweep_walk_SLEEP:
  "sweep_walk (cfg\<lparr>SLEEP_SECONDS := s\<rparr>) w walk = sweep_walk cfg w walk"
  by (induction walk) (auto simp: sweep_files_SLEEP)

lemma sweep_walk_SLEEP_fun:
  "sweep_walk (cfg\<lparr>SLEEP_SECONDS := s\<rparr>) = sweep_walk cfg"
  by (intro ext) (simp add: sweep_walk_SLEEP)

lemma sweep_once_SLEEP:
  "sweep_once (cfg\<lparr>SLEEP_SECONDS := s\<rparr>) = sweep_once cfg"
  by (intro ext) (simp add: sweep_once_def sweep_walk_SLEEP_fun cong: if_cong)

lemma do_POST_SLEEP:
  "do_POST (cfg\<lparr>SLEEP_SECONDS := s\<rparr>) = do_POST cfg"
  by (intro ext) (simp add: do_POST_def sweep_once_SLEEP cong: if_cong)

lemma serve_forever_SLEEP:
  "serve_forever (cfg\<lparr>SLEEP_SECONDS := s\<rparr>) w posts = serve_forever cfg w posts"
  by (induction posts) (simp_all add: do_POST_SLEEP)

lemma main_SLEEP:
  "main (cfg\<lparr>SLEEP_SECONDS := s\<rparr>) w argv posts = main cfg w argv posts"
  by (simp add: main_def sweep_once_SLEEP serve_forever_SLEEP cong: if_cong)

text \<open>
  C9 does not hold of the program. Without \<^verbatim>\<open>--once\<close>, \<open>main\<close> logs, starts
  the HTTP server and serves: as long as no request arrives it makes no call of a sweep
  at all, and the value of \<open>SLEEP_SECONDS\<close> changes nothing in what it does.
\<close>

theorem main_server_mode_no_sweep:
  assumes "''--once'' \<notin> set argv"
    and "start = Log INFO ''Organizer starting. run_once=%s downloads_dir=%s''
                   [ABool False, APath (DOWNLOADS_DIR cfg)]
                 # (if TMDB_API_KEY cfg = []
                    then [Log WARNING ''TMDB_API_KEY not set; using filename info only.'' []]
                    else [])"
  shows "main cfg w argv [] tr =
           (case env_listen w (tr @ start) ''0.0.0.0'' 8000 of
              Inl e \<Rightarrow> (Inl e, start @ [Listen ''0.0.0.0'' 8000])
            | Inr u \<Rightarrow>
                (Inr Serving,
                 start @ [Listen ''0.0.0.0'' 8000,
                          Log INFO ''HTTP trigger server listening on 0.0.0.0:8000'' []]))
       \<and> main (cfg\<lparr>SLEEP_SECONDS := s\<rparr>) w argv posts tr = main cfg w argv posts tr"
proof (cases "TMDB_API_KEY cfg = []")
  case True
  with assms(1) show ?thesis
    unfolding assms(2)
    by (simp add: main_def io_bind_logging HTTPServer_def io_bind_call ret_apply
        sweep_once_SLEEP serve_forever_SLEEP split: sum.splits)
next
  case False
  with assms(1) show ?thesis
    unfolding assms(2)
    by (simp add: main_def io_bind_logging HTTPServer_def io_bind_call io_bind_ret ret_apply
        sweep_once_SLEEP serve_forever_SLEEP split: sum.splits)
qed

theorem main_server_mode_no_sweep_witness:
  "''--once'' \<notin> set [''organize_media.py'']
   \<and> main example_config tv_world [''organize_media.py''] [] [] =
       (Inr Serving,
        [Log INFO ''Organizer starting. run_once=%s downloads_dir=%s''
           [ABool False, APath (Path ''/downloads/complete'')],
         Log WARNING ''TMDB_API_KEY not set; using filename info only.'' [],
         Listen ''0.0.0.0'' 8000,
         Log INFO ''HTTP trigger server listening on 0.0.0.0:8000'' []])"
  using main_server_mode_no_sweep [OF _ refl, of "[''organize_media.py'']" example_config tv_world "[]"]
  by (simp add: tv_world_def static_world_def example_config_def)

end
